theory Spec2Isabelle
  imports Complex_Main "HOL-Library.AList" "HOL-Library.Sublist"
begin

section \<open>The interpreter's primitives that the cache module relies on\<close>

text \<open>
  The cache module (\<^verbatim>\<open>sleeper_mcp_server/cache.py\<close>) contains no \<^verbatim>\<open>raise\<close> statement; whatever
  it can raise comes from the built-in operations it calls. Those are written out here with
  their error branches.
\<close>

datatype py_error = KeyError | OverflowError | ZeroDivisionError | ValueError

text \<open>
  A \<^verbatim>\<open>dict\<close> keeps its keys unique and in insertion order: it is an association list in which
  assigning to a present key replaces the value in place and assigning to a new key appends.
  \<^verbatim>\<open>d.get(k)\<close> is \<^term>\<open>map_of d k\<close>, \<^verbatim>\<open>d[k] = v\<close> is \<^term>\<open>AList.update k v d\<close>.
\<close>

type_synonym ('k, 'v) dict = "('k \<times> 'v) list"

definition dict_getitem :: "('k \<rightharpoonup> 'v) \<Rightarrow> 'k \<Rightarrow> py_error + 'v" where
  \<comment> \<open>\<^verbatim>\<open>d[k]\<close> as an expression: KeyError on a missing key.\<close>
  "dict_getitem d k = (case d k of None \<Rightarrow> Inl KeyError | Some v \<Rightarrow> Inr v)"

definition dict_delitem :: "('k, 'v) dict \<Rightarrow> 'k \<Rightarrow> py_error + ('k, 'v) dict" where
  \<comment> \<open>\<^verbatim>\<open>del d[k]\<close>: KeyError on a missing key.\<close>
  "dict_delitem d k = (if map_of d k = None then Inl KeyError else Inr (AList.delete k d))"

text \<open>
  Time stamps are the doubles returned by \<^verbatim>\<open>time.time()\<close>; a double is a real number,
  and the comparisons of the module compare them exactly. The arithmetic on doubles rounds,
  and how it rounds is the interpreter's business: each operation the module uses
  (\<^verbatim>\<open>float + int\<close>, \<^verbatim>\<open>float - float\<close>, \<^verbatim>\<open>int / int\<close>, \<^verbatim>\<open>float * int\<close> and
  \<^verbatim>\<open>round(x, ndigits)\<close>) is a parameter of the model, collected in \<open>float_ops\<close>.
\<close>

record float_ops =
  add_int :: "real \<Rightarrow> int \<Rightarrow> real"
  sub :: "real \<Rightarrow> real \<Rightarrow> real"
  truediv :: "int \<Rightarrow> int \<Rightarrow> real"
  mul_int :: "real \<Rightarrow> int \<Rightarrow> real"
  round_nd :: "real \<Rightarrow> int \<Rightarrow> real"

text \<open>
  \<^verbatim>\<open>float + int\<close> first converts the integer, and the conversion raises OverflowError
  (``int too large to convert to float'') as soon as the integer rounds to a magnitude beyond
  the largest double, that is from \<open>2^1024 - 2^970\<close> on. Below that bound the result is the
  interpreter's sum, which is finite for every clock reading of magnitude below \<open>2^970\<close>.
\<close>

definition DBL_INT_LIMIT :: int where
  "DBL_INT_LIMIT = 2 ^ 1024 - 2 ^ 970"

definition float_add_int :: "float_ops \<Rightarrow> real \<Rightarrow> int \<Rightarrow> py_error + real" where
  "float_add_int fp x n = (if \<bar>n\<bar> < DBL_INT_LIMIT then Inr (add_int fp x n) else Inl OverflowError)"

definition py_truediv :: "float_ops \<Rightarrow> int \<Rightarrow> int \<Rightarrow> py_error + real" where
  "py_truediv fp a b = (if b = 0 then Inl ZeroDivisionError else Inr (truediv fp a b))"

text \<open>
  The finite doubles are the reals \<open>m * 2^e\<close> with \<open>\<bar>m\<bar> < 2^53\<close> and \<open>-1074 \<le> e \<le> 971\<close>.
  IEEE addition returns a double nearest to the exact sum of its operands, and an integer of
  magnitude up to \<open>2^53\<close> converts to itself; \<open>nearest_double d x\<close> says that \<open>d\<close> is such a
  nearest double to \<open>x\<close>.
\<close>

definition is_double :: "real \<Rightarrow> bool" where
  "is_double x \<longleftrightarrow>
     (\<exists>m e. \<bar>m\<bar> < (2::int) ^ 53 \<and> - 1074 \<le> e \<and> e \<le> (971::int) \<and> x = real_of_int m * 2 powi e)"

definition nearest_double :: "real \<Rightarrow> real \<Rightarrow> bool" where
  "nearest_double d x \<longleftrightarrow> is_double d \<and> (\<forall>t. is_double t \<longrightarrow> \<bar>d - x\<bar> \<le> \<bar>t - x\<bar>)"

section \<open>Data model\<close>

datatype CacheDataType =
  PLAYER_DATA | LEAGUE_SETTINGS | MATCHUP_DATA | TRENDING_PLAYERS | ROSTER_DATA

definition all_data_types :: "CacheDataType list" where
  "all_data_types = [PLAYER_DATA, LEAGUE_SETTINGS, MATCHUP_DATA, TRENDING_PLAYERS, ROSTER_DATA]"

fun type_value :: "CacheDataType \<Rightarrow> string" where
  "type_value PLAYER_DATA = ''player_data''"
| "type_value LEAGUE_SETTINGS = ''league_settings''"
| "type_value MATCHUP_DATA = ''matchup_data''"
| "type_value TRENDING_PLAYERS = ''trending_players''"
| "type_value ROSTER_DATA = ''roster_data''"

record 'a CacheEntry =
  data :: 'a
  expires_at :: real
  created_at :: real
  data_type :: CacheDataType

text \<open>The clock reading that \<^verbatim>\<open>time.time()\<close> returns inside a method is an argument.\<close>

definition is_expired :: "real \<Rightarrow> 'a CacheEntry \<Rightarrow> bool" where
  "is_expired now e = (now > expires_at e)"

definition age_seconds :: "float_ops \<Rightarrow> real \<Rightarrow> 'a CacheEntry \<Rightarrow> real" where
  "age_seconds fp now e = sub fp now (created_at e)"

record Stats =
  hits :: int
  misses :: int
  evictions :: int
  invalidations :: int

record 'a CacheManager =
  cache :: "(string, 'a CacheEntry) dict"
  ttl_config :: "CacheDataType \<rightharpoonup> int"
  stats :: Stats

definition DEFAULT_TTL_CONFIG :: "CacheDataType \<rightharpoonup> int" where
  "DEFAULT_TTL_CONFIG =
     [PLAYER_DATA \<mapsto> 3600, LEAGUE_SETTINGS \<mapsto> 86400, MATCHUP_DATA \<mapsto> 3600,
      TRENDING_PLAYERS \<mapsto> 1800, ROSTER_DATA \<mapsto> 900]"

section \<open>Operations of \<^verbatim>\<open>CacheManager\<close>\<close>

text \<open>
  Every method runs its body under the manager's lock, so a call is one atomic step from a
  manager state to the next. Log output is not part of the state and is left out.
\<close>

definition init :: "(CacheDataType \<rightharpoonup> int) option \<Rightarrow> 'a CacheManager" where
  \<comment> \<open>\<^verbatim>\<open>__init__\<close>; updating with an empty mapping changes nothing, as skipping the update does.\<close>
  "init ttl_cfg =
     \<lparr>cache = [],
      ttl_config = (case ttl_cfg of None \<Rightarrow> DEFAULT_TTL_CONFIG
                    | Some ov \<Rightarrow> DEFAULT_TTL_CONFIG ++ ov),
      stats = \<lparr>hits = 0, misses = 0, evictions = 0, invalidations = 0\<rparr>\<rparr>"

definition get ::
  "'a CacheManager \<Rightarrow> string \<Rightarrow> CacheDataType \<Rightarrow> real \<Rightarrow> py_error + ('a option \<times> 'a CacheManager)" where
  "get m key dt now =
     (case map_of (cache m) key of
        None \<Rightarrow> Inr (None, m\<lparr>stats := (stats m)\<lparr>misses := misses (stats m) + 1\<rparr>\<rparr>)
      | Some entry \<Rightarrow>
          if is_expired now entry then
            (case dict_delitem (cache m) key of
               Inl e \<Rightarrow> Inl e
             | Inr c \<Rightarrow>
                 Inr (None, m\<lparr>cache := c,
                               stats := (stats m)\<lparr>evictions := evictions (stats m) + 1,
                                                  misses := misses (stats m) + 1\<rparr>\<rparr>))
          else Inr (Some (data entry), m\<lparr>stats := (stats m)\<lparr>hits := hits (stats m) + 1\<rparr>\<rparr>))"

definition set_item ::
  "float_ops \<Rightarrow> 'a CacheManager \<Rightarrow> string \<Rightarrow> 'a \<Rightarrow> CacheDataType \<Rightarrow> int option \<Rightarrow> real \<Rightarrow>
   py_error + 'a CacheManager" where
  \<comment> \<open>\<^verbatim>\<open>set\<close>\<close>
  "set_item fp m key d dt ttl_override current_time =
     (case (case ttl_override of Some t \<Rightarrow> Inr t | None \<Rightarrow> dict_getitem (ttl_config m) dt) of
        Inl e \<Rightarrow> Inl e
      | Inr ttl \<Rightarrow>
          (case float_add_int fp current_time ttl of
             Inl e \<Rightarrow> Inl e
           | Inr exp_at \<Rightarrow>
               Inr (m\<lparr>cache := AList.update key
                         \<lparr>data = d, expires_at = exp_at, created_at = current_time, data_type = dt\<rparr>
                         (cache m)\<rparr>)))"

definition invalidate :: "'a CacheManager \<Rightarrow> string \<Rightarrow> py_error + (bool \<times> 'a CacheManager)" where
  "invalidate m key =
     (if map_of (cache m) key \<noteq> None then
        (case dict_delitem (cache m) key of
           Inl e \<Rightarrow> Inl e
         | Inr c \<Rightarrow>
             Inr (True, m\<lparr>cache := c,
                           stats := (stats m)\<lparr>invalidations := invalidations (stats m) + 1\<rparr>\<rparr>))
      else Inr (False, m))"

fun remove_keys ::
  "string list \<Rightarrow> (string, 'v) dict \<Rightarrow> int \<Rightarrow> py_error + ((string, 'v) dict \<times> int)" where
  \<comment> \<open>\<^verbatim>\<open>for key in keys_to_remove: del self._cache[key]; counter += 1\<close>\<close>
  "remove_keys [] c n = Inr (c, n)"
| "remove_keys (k # ks) c n =
     (case dict_delitem c k of Inl e \<Rightarrow> Inl e | Inr c' \<Rightarrow> remove_keys ks c' (n + 1))"

definition invalidate_by_pattern ::
  "'a CacheManager \<Rightarrow> string \<Rightarrow> py_error + (int \<times> 'a CacheManager)" where
  \<comment> \<open>\<^verbatim>\<open>pattern in key\<close> on strings is \<^const>\<open>sublist\<close>: a contiguous run of characters.\<close>
  "invalidate_by_pattern m pattern =
     (let keys_to_remove = filter (\<lambda>key. sublist pattern key) (map fst (cache m)) in
      case remove_keys keys_to_remove (cache m) (invalidations (stats m)) of
        Inl e \<Rightarrow> Inl e
      | Inr (c, n) \<Rightarrow>
          Inr (int (length keys_to_remove),
               m\<lparr>cache := c, stats := (stats m)\<lparr>invalidations := n\<rparr>\<rparr>))"

definition invalidate_by_type ::
  "'a CacheManager \<Rightarrow> CacheDataType \<Rightarrow> py_error + (int \<times> 'a CacheManager)" where
  "invalidate_by_type m dt =
     (let keys_to_remove = map fst (filter (\<lambda>(key, entry). data_type entry = dt) (cache m)) in
      case remove_keys keys_to_remove (cache m) (invalidations (stats m)) of
        Inl e \<Rightarrow> Inl e
      | Inr (c, n) \<Rightarrow>
          Inr (int (length keys_to_remove),
               m\<lparr>cache := c, stats := (stats m)\<lparr>invalidations := n\<rparr>\<rparr>))"

definition clear :: "'a CacheManager \<Rightarrow> int \<times> 'a CacheManager" where
  "clear m =
     (let count = int (length (cache m)) in
      (count, m\<lparr>cache := [],
                 stats := (stats m)\<lparr>invalidations := invalidations (stats m) + count\<rparr>\<rparr>))"

definition cleanup_expired ::
  "'a CacheManager \<Rightarrow> real \<Rightarrow> py_error + (int \<times> 'a CacheManager)" where
  "cleanup_expired m current_time =
     (let keys_to_remove =
            map fst (filter (\<lambda>(key, entry). expires_at entry \<le> current_time) (cache m)) in
      case remove_keys keys_to_remove (cache m) (evictions (stats m)) of
        Inl e \<Rightarrow> Inl e
      | Inr (c, n) \<Rightarrow>
          Inr (int (length keys_to_remove),
               m\<lparr>cache := c, stats := (stats m)\<lparr>evictions := n\<rparr>\<rparr>))"

record StatsReport =
  r_hits :: int
  r_misses :: int
  hit_rate_percent :: real
  r_evictions :: int
  r_invalidations :: int
  total_entries :: int
  total_requests :: int

definition get_stats :: "float_ops \<Rightarrow> 'a CacheManager \<Rightarrow> py_error + StatsReport" where
  \<comment> \<open>With no request the rate is the integer 0, and \<^verbatim>\<open>round(0, 2)\<close> is the integer 0.\<close>
  "get_stats fp m =
     (let total = hits (stats m) + misses (stats m) in
      case (if total > 0
            then (case py_truediv fp (hits (stats m)) total of
                    Inl e \<Rightarrow> Inl e
                  | Inr q \<Rightarrow> Inr (round_nd fp (mul_int fp q 100) 2))
            else Inr 0) of
        Inl e \<Rightarrow> Inl e
      | Inr rate \<Rightarrow>
          Inr \<lparr>r_hits = hits (stats m), r_misses = misses (stats m), hit_rate_percent = rate,
               r_evictions = evictions (stats m), r_invalidations = invalidations (stats m),
               total_entries = int (length (cache m)), total_requests = total\<rparr>)"

definition get_matchup_ttl :: "bool \<Rightarrow> int" where
  "get_matchup_ttl is_game_time = (if is_game_time then 300 else 3600)"

record CacheInfo =
  info_total_entries :: int
  expired_entries :: int
  entries_by_type :: "(string, int \<times> int) dict"
  oldest_entry_age :: real
  newest_entry_age :: real

text \<open>
  \<^verbatim>\<open>get_cache_info\<close> keeps, per category name, the pair of its \<^verbatim>\<open>count\<close> and
  \<^verbatim>\<open>expired\<close> counters. Each \<^verbatim>\<open>is_expired()\<close> inside the scan reads the clock again:
  \<open>clock i\<close> is the reading taken for the entry at position \<open>i\<close>.
\<close>

definition py_max :: "real list \<Rightarrow> py_error + real" where
  "py_max xs = (case xs of [] \<Rightarrow> Inl ValueError | x # ys \<Rightarrow> Inr (fold max ys x))"

definition py_min :: "real list \<Rightarrow> py_error + real" where
  "py_min xs = (case xs of [] \<Rightarrow> Inl ValueError | x # ys \<Rightarrow> Inr (fold min ys x))"

definition bump_count ::
  "(string, int \<times> int) dict \<Rightarrow> string \<Rightarrow> py_error + (string, int \<times> int) dict" where
  \<comment> \<open>\<^verbatim>\<open>by_type[type_name]['count'] += 1\<close>\<close>
  "bump_count by_type type_name =
     (case dict_getitem (map_of by_type) type_name of
        Inl e \<Rightarrow> Inl e
      | Inr (c, x) \<Rightarrow> Inr (AList.update type_name (c + 1, x) by_type))"

definition bump_expired ::
  "(string, int \<times> int) dict \<Rightarrow> string \<Rightarrow> py_error + (string, int \<times> int) dict" where
  \<comment> \<open>\<^verbatim>\<open>by_type[type_name]['expired'] += 1\<close>\<close>
  "bump_expired by_type type_name =
     (case dict_getitem (map_of by_type) type_name of
        Inl e \<Rightarrow> Inl e
      | Inr (c, x) \<Rightarrow> Inr (AList.update type_name (c, x + 1) by_type))"

fun scan_entries ::
  "float_ops \<Rightarrow> real \<Rightarrow> (nat \<Rightarrow> real) \<Rightarrow> nat \<Rightarrow> 'a CacheEntry list \<Rightarrow>
   real list \<times> (string, int \<times> int) dict \<times> int \<Rightarrow>
   py_error + (real list \<times> (string, int \<times> int) dict \<times> int)" where
  \<comment> \<open>the \<^verbatim>\<open>for entry in self._cache.values()\<close> loop of \<^verbatim>\<open>get_cache_info\<close>\<close>
  "scan_entries fp current_time clock i [] acc = Inr acc"
| "scan_entries fp current_time clock i (entry # rest) (ages, by_type, expired) =
     (let ages' = ages @ [sub fp current_time (created_at entry)];
          type_name = type_value (data_type entry);
          by_type1 = (if map_of by_type type_name = None
                      then AList.update type_name (0, 0) by_type else by_type)
      in case bump_count by_type1 type_name of
           Inl e \<Rightarrow> Inl e
         | Inr by_type2 \<Rightarrow>
             if is_expired (clock i) entry then
               (case bump_expired by_type2 type_name of
                  Inl e \<Rightarrow> Inl e
                | Inr by_type3 \<Rightarrow>
                    scan_entries fp current_time clock (Suc i) rest (ages', by_type3, expired + 1))
             else scan_entries fp current_time clock (Suc i) rest (ages', by_type2, expired))"

definition get_cache_info ::
  "float_ops \<Rightarrow> 'a CacheManager \<Rightarrow> real \<Rightarrow> (nat \<Rightarrow> real) \<Rightarrow> py_error + CacheInfo" where
  "get_cache_info fp m current_time clock =
     (if cache m = [] then
        Inr \<lparr>info_total_entries = 0, expired_entries = 0, entries_by_type = [],
             oldest_entry_age = 0, newest_entry_age = 0\<rparr>
      else
        (case scan_entries fp current_time clock 0 (map snd (cache m)) ([], [], 0) of
           Inl e \<Rightarrow> Inl e
         | Inr (ages, by_type, expired) \<Rightarrow>
             if ages \<noteq> [] then
               (case py_max ages of
                  Inl e \<Rightarrow> Inl e
                | Inr oldest \<Rightarrow>
                    (case py_min ages of
                       Inl e \<Rightarrow> Inl e
                     | Inr newest \<Rightarrow>
                         Inr \<lparr>info_total_entries = int (length (cache m)),
                              expired_entries = expired, entries_by_type = by_type,
                              oldest_entry_age = oldest, newest_entry_age = newest\<rparr>))
             else
               Inr \<lparr>info_total_entries = int (length (cache m)), expired_entries = expired,
                    entries_by_type = by_type, oldest_entry_age = 0, newest_entry_age = 0\<rparr>))"

definition log_performance_summary ::
  "float_ops \<Rightarrow> 'a CacheManager \<Rightarrow> real \<Rightarrow> (nat \<Rightarrow> real) \<Rightarrow> py_error + unit" where
  "log_performance_summary fp m current_time clock =
     (case get_stats fp m of
        Inl e \<Rightarrow> Inl e
      | Inr st \<Rightarrow>
          (case get_cache_info fp m current_time clock of Inl e \<Rightarrow> Inl e | Inr info \<Rightarrow> Inr ()))"

section \<open>States a manager can be in\<close>

text \<open>
  A manager starts in the state its constructor builds and changes state through its methods
  only (the read-only methods leave it as it is), whatever the double operations compute. \<open>wf_manager\<close> collects what holds of every
  such state: the store's keys are unique, every category has a TTL, no counter is negative.
\<close>

inductive reachable :: "(CacheDataType \<rightharpoonup> int) option \<Rightarrow> 'a CacheManager \<Rightarrow> bool"
  for ttl_cfg :: "(CacheDataType \<rightharpoonup> int) option" where
  r_init: "reachable ttl_cfg (init ttl_cfg)"
| r_get: "reachable ttl_cfg m \<Longrightarrow> get m key dt now = Inr (res, m') \<Longrightarrow> reachable ttl_cfg m'"
| r_set:
    "reachable ttl_cfg m \<Longrightarrow> set_item fp m key d dt ov now = Inr m' \<Longrightarrow> reachable ttl_cfg m'"
| r_invalidate: "reachable ttl_cfg m \<Longrightarrow> invalidate m key = Inr (b, m') \<Longrightarrow> reachable ttl_cfg m'"
| r_pattern:
    "reachable ttl_cfg m \<Longrightarrow> invalidate_by_pattern m pat = Inr (n, m') \<Longrightarrow> reachable ttl_cfg m'"
| r_type:
    "reachable ttl_cfg m \<Longrightarrow> invalidate_by_type m dt = Inr (n, m') \<Longrightarrow> reachable ttl_cfg m'"
| r_clear: "reachable ttl_cfg m \<Longrightarrow> clear m = (n, m') \<Longrightarrow> reachable ttl_cfg m'"
| r_cleanup:
    "reachable ttl_cfg m \<Longrightarrow> cleanup_expired m now = Inr (n, m') \<Longrightarrow> reachable ttl_cfg m'"

definition wf_manager :: "'a CacheManager \<Rightarrow> bool" where
  "wf_manager m \<longleftrightarrow>
     distinct (map fst (cache m)) \<and>
     list_all (\<lambda>dt. ttl_config m dt \<noteq> None) all_data_types \<and>
     0 \<le> hits (stats m) \<and> 0 \<le> misses (stats m) \<and>
     0 \<le> evictions (stats m) \<and> 0 \<le> invalidations (stats m)"

section \<open>Deleting a list of keys\<close>

lemma dict_delitem_present:
  "k \<in> fst ` set c \<Longrightarrow> dict_delitem c k = Inr (filter (\<lambda>p. fst p \<noteq> k) c)"
proof -
  assume "k \<in> fst ` set c"
  then have "map_of c k \<noteq> None" by (simp add: map_of_eq_None_iff)
  moreover have "AList.delete k c = filter (\<lambda>p. fst p \<noteq> k) c"
    unfolding AList.delete_eq by (rule filter_cong [OF refl]) auto
  ultimately show ?thesis by (simp add: dict_delitem_def)
qed

lemma remove_keys_filter:
  "distinct ks \<Longrightarrow> set ks \<subseteq> fst ` set c \<Longrightarrow>
   remove_keys ks c n = Inr (filter (\<lambda>p. fst p \<notin> set ks) c, n + int (length ks))"
proof (induction ks arbitrary: c n)
  case Nil
  then show ?case by simp
next
  case (Cons k ks)
  let ?c' = "filter (\<lambda>p. fst p \<noteq> k) c"
  from Cons.prems have del: "dict_delitem c k = Inr ?c'"
    by (simp add: dict_delitem_present)
  from Cons.prems have sub: "set ks \<subseteq> fst ` set ?c'"
    by force
  from Cons.prems have "distinct ks" by simp
  from Cons.IH [OF this sub, of "n + 1"] del show ?case
    by (simp add: conj_commute)
qed

lemma filter_keys_of_filter:
  assumes "distinct (map fst c)"
  shows "filter (\<lambda>p. fst p \<notin> set (map fst (filter Q c))) c = filter (\<lambda>p. \<not> Q p) c"
proof (rule filter_cong [OF refl])
  fix p assume p: "p \<in> set c"
  from assms have inj: "inj_on fst (set c)" by (simp add: distinct_map)
  show "(fst p \<notin> set (map fst (filter Q c))) = (\<not> Q p)"
  proof
    assume "fst p \<notin> set (map fst (filter Q c))"
    with p show "\<not> Q p" by force
  next
    assume nq: "\<not> Q p"
    show "fst p \<notin> set (map fst (filter Q c))"
    proof
      assume "fst p \<in> set (map fst (filter Q c))"
      then obtain q where q: "q \<in> set c" "Q q" "fst q = fst p" by auto
      with inj p have "q = p" by (auto dest: inj_onD)
      with q nq show False by simp
    qed
  qed
qed

section \<open>The TTL table and the double range\<close>

lemma default_ttl_values:
  "DEFAULT_TTL_CONFIG PLAYER_DATA = Some 3600"
  "DEFAULT_TTL_CONFIG LEAGUE_SETTINGS = Some 86400"
  "DEFAULT_TTL_CONFIG MATCHUP_DATA = Some 3600"
  "DEFAULT_TTL_CONFIG TRENDING_PLAYERS = Some 1800"
  "DEFAULT_TTL_CONFIG ROSTER_DATA = Some 900"
  by (simp_all add: DEFAULT_TTL_CONFIG_def)

lemma default_ttl_defined: "DEFAULT_TTL_CONFIG dt \<noteq> None"
  by (cases dt) (simp_all add: default_ttl_values)

lemma limit_val: "2 ^ 1023 < DBL_INT_LIMIT"
  unfolding DBL_INT_LIMIT_def by simp

lemma below_limit: "n \<le> 86400 \<Longrightarrow> n < DBL_INT_LIMIT"
proof -
  assume a: "n \<le> 86400"
  have "(86400::int) < 2 ^ 1023" by simp
  with a limit_val show ?thesis by linarith
qed

lemma all_data_types_complete: "dt \<in> set all_data_types"
  by (cases dt) (simp_all add: all_data_types_def)

section \<open>What each operation returns\<close>

lemma set_item_Inr:
  assumes "set_item fp m key d dt ov now = Inr m'"
  shows "\<exists>ttl. (ov = Some ttl \<or> ov = None \<and> ttl_config m dt = Some ttl) \<and> \<bar>ttl\<bar> < DBL_INT_LIMIT \<and>
           m' = m\<lparr>cache := AList.update key
                   \<lparr>data = d, expires_at = add_int fp now ttl, created_at = now, data_type = dt\<rparr>
                   (cache m)\<rparr>"
  using assms
  by (auto simp: set_item_def dict_getitem_def float_add_int_def
           split: option.splits sum.splits if_splits)

lemma get_absent:
  "map_of (cache m) key = None \<Longrightarrow>
   get m key dt now = Inr (None, m\<lparr>stats := (stats m)\<lparr>misses := misses (stats m) + 1\<rparr>\<rparr>)"
  by (simp add: get_def)

lemma get_live:
  "map_of (cache m) key = Some e \<Longrightarrow> now \<le> expires_at e \<Longrightarrow>
   get m key dt now = Inr (Some (data e), m\<lparr>stats := (stats m)\<lparr>hits := hits (stats m) + 1\<rparr>\<rparr>)"
  by (simp add: get_def is_expired_def)

lemma get_total: "\<exists>r m'. get m key dt now = Inr (r, m')"
  by (cases "map_of (cache m) key")
     (auto simp: get_def dict_delitem_def)

lemma invalidate_present:
  "map_of (cache m) key = Some e \<Longrightarrow>
   invalidate m key =
     Inr (True, m\<lparr>cache := AList.delete key (cache m),
                   stats := (stats m)\<lparr>invalidations := invalidations (stats m) + 1\<rparr>\<rparr>)"
  by (simp add: invalidate_def dict_delitem_def)

lemma invalidate_absent:
  "map_of (cache m) key = None \<Longrightarrow> invalidate m key = Inr (False, m)"
  by (simp add: invalidate_def)

lemma distinct_filter_keys: "distinct (map fst c) \<Longrightarrow> distinct (map fst (filter Q c))"
  by (simp add: distinct_map_filter)

lemma remove_filtered_keys:
  assumes "distinct (map fst c)"
  shows "remove_keys (map fst (filter Q c)) c n =
           Inr (filter (\<lambda>p. \<not> Q p) c, n + int (length (filter Q c)))"
proof -
  from assms have d: "distinct (map fst (filter Q c))" by (rule distinct_filter_keys)
  have s: "set (map fst (filter Q c)) \<subseteq> fst ` set c" by auto
  show ?thesis
    using remove_keys_filter [OF d s, of n]
    by (simp only: filter_keys_of_filter [OF assms] length_map)
qed

lemma invalidate_by_pattern_result:
  assumes "distinct (map fst (cache m))"
  shows "invalidate_by_pattern m pat =
           Inr (int (length (filter (\<lambda>p. sublist pat (fst p)) (cache m))),
                m\<lparr>cache := filter (\<lambda>p. \<not> sublist pat (fst p)) (cache m),
                  stats := (stats m)\<lparr>invalidations := invalidations (stats m) +
                     int (length (filter (\<lambda>p. sublist pat (fst p)) (cache m)))\<rparr>\<rparr>)"
proof -
  have ks: "filter (\<lambda>key. sublist pat key) (map fst (cache m)) =
            map fst (filter (\<lambda>p. sublist pat (fst p)) (cache m))"
    by (simp add: filter_map comp_def)
  show ?thesis
    unfolding invalidate_by_pattern_def Let_def ks remove_filtered_keys [OF assms]
    by simp
qed

lemma invalidate_by_type_result:
  assumes "distinct (map fst (cache m))"
  shows "invalidate_by_type m dt =
           Inr (int (length (filter (\<lambda>p. data_type (snd p) = dt) (cache m))),
                m\<lparr>cache := filter (\<lambda>p. data_type (snd p) \<noteq> dt) (cache m),
                  stats := (stats m)\<lparr>invalidations := invalidations (stats m) +
                     int (length (filter (\<lambda>p. data_type (snd p) = dt) (cache m)))\<rparr>\<rparr>)"
proof -
  have q: "(\<lambda>(key, entry). data_type entry = dt) =
           (\<lambda>p::string \<times> 'a CacheEntry. data_type (snd p) = dt)"
    by (simp add: fun_eq_iff)
  show ?thesis
    unfolding invalidate_by_type_def Let_def q remove_filtered_keys [OF assms]
    by simp
qed

lemma cleanup_expired_result:
  assumes "distinct (map fst (cache m))"
  shows "cleanup_expired m now =
           Inr (int (length (filter (\<lambda>p. expires_at (snd p) \<le> now) (cache m))),
                m\<lparr>cache := filter (\<lambda>p. \<not> expires_at (snd p) \<le> now) (cache m),
                  stats := (stats m)\<lparr>evictions := evictions (stats m) +
                     int (length (filter (\<lambda>p. expires_at (snd p) \<le> now) (cache m)))\<rparr>\<rparr>)"
proof -
  have q: "(\<lambda>(key, entry). expires_at entry \<le> now) =
           (\<lambda>p::string \<times> 'a CacheEntry. expires_at (snd p) \<le> now)"
    by (simp add: fun_eq_iff)
  show ?thesis
    unfolding cleanup_expired_def Let_def q remove_filtered_keys [OF assms]
    by simp
qed

section \<open>Invariants of reachable states\<close>

lemma wf_manager_ttl: "wf_manager m \<Longrightarrow> \<exists>t. ttl_config m dt = Some t"
  using all_data_types_complete [of dt]
  by (auto simp: wf_manager_def list_all_iff)

lemma wf_init: "wf_manager (init ttl_cfg)"
  by (cases ttl_cfg)
     (auto simp: wf_manager_def init_def list_all_iff default_ttl_defined map_add_Some_iff
           simp flip: not_None_eq)

lemma wf_get: "wf_manager m \<Longrightarrow> get m key dt now = Inr (res, m') \<Longrightarrow> wf_manager m'"
  by (auto simp: get_def dict_delitem_def wf_manager_def AList.distinct_delete
           split: option.splits if_splits)

lemma wf_set_item:
  "wf_manager m \<Longrightarrow> set_item fp m key d dt ov now = Inr m' \<Longrightarrow> wf_manager m'"
  by (auto dest!: set_item_Inr simp: wf_manager_def AList.distinct_update)

lemma wf_invalidate: "wf_manager m \<Longrightarrow> invalidate m key = Inr (b, m') \<Longrightarrow> wf_manager m'"
  by (auto simp: invalidate_def dict_delitem_def wf_manager_def AList.distinct_delete
           split: if_splits)

lemma wf_invalidate_by_pattern:
  "wf_manager m \<Longrightarrow> invalidate_by_pattern m pat = Inr (n, m') \<Longrightarrow> wf_manager m'"
  by (auto simp: wf_manager_def invalidate_by_pattern_result distinct_filter_keys)

lemma wf_invalidate_by_type:
  "wf_manager m \<Longrightarrow> invalidate_by_type m dt = Inr (n, m') \<Longrightarrow> wf_manager m'"
  by (auto simp: wf_manager_def invalidate_by_type_result distinct_filter_keys)

lemma wf_clear: "wf_manager m \<Longrightarrow> clear m = (n, m') \<Longrightarrow> wf_manager m'"
  by (auto simp: wf_manager_def clear_def Let_def)

lemma wf_cleanup_expired:
  "wf_manager m \<Longrightarrow> cleanup_expired m now = Inr (n, m') \<Longrightarrow> wf_manager m'"
  by (auto simp: wf_manager_def cleanup_expired_result distinct_filter_keys)

lemma reachable_wf: "reachable ttl_cfg m \<Longrightarrow> wf_manager m"
  by (induction rule: reachable.induct)
     (auto intro: wf_init wf_get wf_set_item wf_invalidate wf_invalidate_by_pattern
                  wf_invalidate_by_type wf_clear wf_cleanup_expired)

lemma reachable_distinct: "reachable ttl_cfg m \<Longrightarrow> distinct (map fst (cache m))"
  by (drule reachable_wf) (simp add: wf_manager_def)

lemma reachable_ttl_config:
  "reachable ttl_cfg (m :: 'a CacheManager) \<Longrightarrow> ttl_config m = ttl_config (init ttl_cfg :: 'a CacheManager)"
proof (induction rule: reachable.induct)
  case r_init
  show ?case by simp
next
  case (r_get m key dt now res m')
  then show ?case
    by (auto simp: get_def split: option.splits if_splits sum.splits)
next
  case (r_set m fp key d dt ov now m')
  then show ?case by (auto dest!: set_item_Inr)
next
  case (r_invalidate m key b m')
  then show ?case by (auto simp: invalidate_def split: if_splits sum.splits)
next
  case (r_pattern m pat n m')
  then show ?case
    by (auto simp: invalidate_by_pattern_result [OF reachable_distinct])
next
  case (r_type m dt n m')
  then show ?case
    by (auto simp: invalidate_by_type_result [OF reachable_distinct])
next
  case (r_clear m n m')
  then show ?case by (auto simp: clear_def Let_def)
next
  case (r_cleanup m now n m')
  then show ?case
    by (auto simp: cleanup_expired_result [OF reachable_distinct])
qed

lemma init_ttl_config:
  "ttl_config (init ttl_cfg) dt =
     (case ttl_cfg of None \<Rightarrow> DEFAULT_TTL_CONFIG dt
      | Some ov \<Rightarrow> (case ov dt of Some v \<Rightarrow> Some v | None \<Rightarrow> DEFAULT_TTL_CONFIG dt))"
  by (auto simp: init_def map_add_def split: option.splits)

section \<open>Small facts about the store\<close>

lemma length_update_present:
  "map_of c k \<noteq> None \<Longrightarrow> length (AList.update k v c) = length c"
  by (induction c) auto

lemma filter_update_other:
  "filter (\<lambda>p. fst p \<noteq> k) (AList.update k v c) = filter (\<lambda>p. fst p \<noteq> k) c"
  by (induction c) auto

section \<open>The read-only reports return\<close>

lemma get_stats_result:
  assumes "wf_manager m"
  shows "get_stats fp m =
           Inr \<lparr>r_hits = hits (stats m), r_misses = misses (stats m),
                hit_rate_percent =
                  (if hits (stats m) + misses (stats m) = 0 then 0
                   else round_nd fp (mul_int fp
                          (truediv fp (hits (stats m)) (hits (stats m) + misses (stats m))) 100) 2),
                r_evictions = evictions (stats m), r_invalidations = invalidations (stats m),
                total_entries = int (length (cache m)),
                total_requests = hits (stats m) + misses (stats m)\<rparr>"
proof -
  from assms have "0 \<le> hits (stats m)" "0 \<le> misses (stats m)"
    by (simp_all add: wf_manager_def)
  then have "(0 < hits (stats m) + misses (stats m)) = (hits (stats m) + misses (stats m) \<noteq> 0)"
    by linarith
  then show ?thesis
    by (simp add: get_stats_def Let_def py_truediv_def)
qed

lemma bump_count_present:
  "map_of bt name = Some (c, x) \<Longrightarrow> bump_count bt name = Inr (AList.update name (c + 1, x) bt)"
  by (simp add: bump_count_def dict_getitem_def)

lemma bump_expired_present:
  "map_of bt name = Some (c, x) \<Longrightarrow> bump_expired bt name = Inr (AList.update name (c, x + 1) bt)"
  by (simp add: bump_expired_def dict_getitem_def)

lemma scan_entries_total:
  "\<exists>bt' x'. scan_entries fp ct clock i es (ages, bt, x) =
              Inr (ages @ map (\<lambda>e. sub fp ct (created_at e)) es, bt', x')"
proof (induction es arbitrary: i ages bt x)
  case Nil
  show ?case by simp
next
  case (Cons e es)
  let ?name = "type_value (data_type e)"
  let ?bt1 = "if map_of bt ?name = None then AList.update ?name (0, 0) bt else bt"
  obtain c y where look: "map_of ?bt1 ?name = Some (c, y)"
    by (cases "map_of bt ?name") (auto simp: AList.update_conv')
  let ?bt2 = "AList.update ?name (c + 1, y) ?bt1"
  have b1: "bump_count ?bt1 ?name = Inr ?bt2"
    by (rule bump_count_present [OF look])
  have look2: "map_of ?bt2 ?name = Some (c + 1, y)"
    by (simp add: AList.update_conv')
  have b2: "bump_expired ?bt2 ?name = Inr (AList.update ?name (c + 1, y + 1) ?bt2)"
    by (rule bump_expired_present [OF look2])
  show ?case
  proof (cases "is_expired (clock i) e")
    case True
    from Cons.IH [of "Suc i" "ages @ [sub fp ct (created_at e)]"
                     "AList.update ?name (c + 1, y + 1) ?bt2" "x + 1"]
    show ?thesis using True b1 b2 by (simp add: Let_def)
  next
    case False
    from Cons.IH [of "Suc i" "ages @ [sub fp ct (created_at e)]" ?bt2 x]
    show ?thesis using False b1 by (simp add: Let_def)
  qed
qed

lemma get_cache_info_total: "\<exists>r. get_cache_info fp m ct clock = Inr r"
proof (cases "cache m = []")
  case True
  then show ?thesis by (simp add: get_cache_info_def)
next
  case False
  from scan_entries_total [of fp ct clock 0 "map snd (cache m)" "[]" "[]" 0]
  obtain bt x where
    sc: "scan_entries fp ct clock 0 (map snd (cache m)) ([], [], 0) =
           Inr (map (\<lambda>e. sub fp ct (created_at e)) (map snd (cache m)), bt, x)"
    by auto
  from False obtain a as where
    "map (\<lambda>e. sub fp ct (created_at e)) (map snd (cache m)) = a # as"
    by (cases "cache m") auto
  with False sc show ?thesis
    by (simp add: get_cache_info_def py_max_def py_min_def)
qed

lemma get_stats_total: "wf_manager m \<Longrightarrow> \<exists>r. get_stats fp m = Inr r"
  by (simp add: get_stats_result)

section \<open>Doubles nearest to a real\<close>

lemma not_above_nearest:
  assumes "nearest_double d x" and "is_double t" and "t < x"
  shows "t \<le> d"
proof (rule ccontr)
  assume "\<not> t \<le> d"
  with assms(3) have "\<bar>t - x\<bar> < \<bar>d - x\<bar>" by simp
  moreover from assms(1,2) have "\<bar>d - x\<bar> \<le> \<bar>t - x\<bar>" by (simp add: nearest_double_def)
  ultimately show False by simp
qed

lemma int_is_double: "\<bar>n\<bar> < 2 ^ 53 \<Longrightarrow> is_double (real_of_int n)"
  unfolding is_double_def by (rule exI [of _ n], rule exI [of _ 0]) simp

lemma nearest_double_self: "is_double x \<Longrightarrow> nearest_double x x"
  by (simp add: nearest_double_def)

section \<open>Category independence of lookups\<close>

text \<open>
  C7. The category passed to \<open>get\<close> influences neither the value returned nor the successor
  state: for every manager state, key and clock reading, two calls that differ in the
  category only have the same outcome, whatever category the stored entry carries.
\<close>

theorem get_ignores_category:
  "get m key c1 now = get m key c2 now"
  by (simp add: get_def)

section \<open>Reading back what was stored\<close>

text \<open>
  C1. A \<open>set\<close> without a TTL override, read at clock value \<open>t0\<close>, followed by a \<open>get\<close> of the
  same key at a clock value \<open>t1\<close> with less than the category's TTL elapsed
  (\<open>t1 - t0 < ttl\<close>), returns the payload that was stored, whatever category the \<open>get\<close>
  names; the successor state differs from the state after the \<open>set\<close> in the hits counter
  only, which is one higher: misses, evictions, invalidations and the store are the same.
  The clock value \<open>t1\<close> is a double, and the expiration that \<open>set\<close> stored is the
  interpreter's sum of \<open>t0\<close> and the TTL, a double nearest to \<open>t0 + ttl\<close>.
\<close>

theorem get_after_set_within_ttl:
  assumes "set_item fp m key d dt None t0 = Inr m1"
      and "ttl_config m dt = Some ttl"
      and "t1 - t0 < real_of_int ttl"
      and "is_double t1"
      and "nearest_double (add_int fp t0 ttl) (t0 + real_of_int ttl)"
  shows "get m1 key dt' t1 =
           Inr (Some d, m1\<lparr>stats := (stats m1)\<lparr>hits := hits (stats m1) + 1\<rparr>\<rparr>)"
proof -
  let ?e = "\<lparr>data = d, expires_at = add_int fp t0 ttl, created_at = t0, data_type = dt\<rparr>"
  from set_item_Inr [OF assms(1)] assms(2)
  have m1: "m1 = m\<lparr>cache := AList.update key ?e (cache m)\<rparr>" by auto
  then have look: "map_of (cache m1) key = Some ?e" by (simp add: AList.update_conv')
  from assms(3) have "t1 < t0 + real_of_int ttl" by simp
  from not_above_nearest [OF assms(5) assms(4) this] have "t1 \<le> expires_at ?e" by simp
  from get_live [OF look this] show ?thesis by simp
qed

theorem get_after_set_within_ttl_witness:
  "set_item
     \<lparr>add_int = \<lambda>x n. x + real_of_int n, sub = \<lambda>x y. x - y,
       truediv = \<lambda>a b. real_of_int a / real_of_int b, mul_int = \<lambda>x n. x * real_of_int n,
       round_nd = \<lambda>x n. real_of_int (round (x * 10 ^ nat n)) / 10 ^ nat n\<rparr>
     (init None) ''p1'' ''A'' PLAYER_DATA None 1700000000 =
     Inr \<lparr>cache = [(''p1'', \<lparr>data = ''A'', expires_at = 1700003600, created_at = 1700000000,
                              data_type = PLAYER_DATA\<rparr>)],
          ttl_config = DEFAULT_TTL_CONFIG,
          stats = \<lparr>hits = 0, misses = 0, evictions = 0, invalidations = 0\<rparr>\<rparr> \<and>
   get \<lparr>cache = [(''p1'', \<lparr>data = ''A'', expires_at = 1700003600, created_at = 1700000000,
                            data_type = PLAYER_DATA\<rparr>)],
        ttl_config = DEFAULT_TTL_CONFIG,
        stats = \<lparr>hits = 0, misses = 0, evictions = 0, invalidations = 0\<rparr>\<rparr>
       ''p1'' ROSTER_DATA 1700003599 =
     Inr (Some ''A'',
          \<lparr>cache = [(''p1'', \<lparr>data = ''A'', expires_at = 1700003600, created_at = 1700000000,
                              data_type = PLAYER_DATA\<rparr>)],
           ttl_config = DEFAULT_TTL_CONFIG,
           stats = \<lparr>hits = 1, misses = 0, evictions = 0, invalidations = 0\<rparr>\<rparr>)"
  (is "set_item ?fp _ _ _ _ _ _ = Inr ?A \<and> _")
proof -
  have c: "ttl_config (init None :: string CacheManager) PLAYER_DATA = Some 3600"
    by (simp add: init_def default_ttl_values)
  have s: "set_item ?fp (init None) ''p1'' ''A'' PLAYER_DATA None 1700000000 = Inr ?A"
    by (simp add: set_item_def dict_getitem_def float_add_int_def init_def default_ttl_values
          below_limit)
  have t: "(1700003599::real) - 1700000000 < real_of_int 3600" by simp
  have d1: "is_double 1700003599"
    using int_is_double [of 1700003599] by simp
  have "is_double 1700003600"
    using int_is_double [of 1700003600] by simp
  then have n: "nearest_double (add_int ?fp 1700000000 3600) (1700000000 + real_of_int 3600)"
    using nearest_double_self [of 1700003600] by simp
  from get_after_set_within_ttl [OF s c t d1 n, of ROSTER_DATA] s show ?thesis by simp
qed

section \<open>A TTL override of zero\<close>

text \<open>
  C2. After \<open>set\<close> with \<^verbatim>\<open>ttl_override=0\<close> every later \<open>get\<close> of the key should return
  absent, the first one counting an eviction and a miss. The code misses this at the
  boundary: the entry's expiration is the clock value of the \<open>set\<close>, and a \<open>get\<close> that reads
  that same clock value finds the entry live, returns the payload and counts a hit, because
  \<open>is_expired\<close> compares with \<open>>\<close>; the sweep \<open>cleanup_expired\<close>, which compares with
  \<open>\<le>\<close>, takes the same entry at the same clock value for expired and evicts it.
\<close>

theorem zero_ttl_hit_at_set_instant:
  "set_item
     \<lparr>add_int = \<lambda>x n. x + real_of_int n, sub = \<lambda>x y. x - y,
       truediv = \<lambda>a b. real_of_int a / real_of_int b, mul_int = \<lambda>x n. x * real_of_int n,
       round_nd = \<lambda>x n. real_of_int (round (x * 10 ^ nat n)) / 10 ^ nat n\<rparr>
     (init None) ''k'' ''v'' PLAYER_DATA (Some 0) 1700000000 =
     Inr \<lparr>cache = [(''k'', \<lparr>data = ''v'', expires_at = 1700000000, created_at = 1700000000,
                             data_type = PLAYER_DATA\<rparr>)],
          ttl_config = DEFAULT_TTL_CONFIG,
          stats = \<lparr>hits = 0, misses = 0, evictions = 0, invalidations = 0\<rparr>\<rparr> \<and>
   get \<lparr>cache = [(''k'', \<lparr>data = ''v'', expires_at = 1700000000, created_at = 1700000000,
                           data_type = PLAYER_DATA\<rparr>)],
        ttl_config = DEFAULT_TTL_CONFIG,
        stats = \<lparr>hits = 0, misses = 0, evictions = 0, invalidations = 0\<rparr>\<rparr>
       ''k'' PLAYER_DATA 1700000000 =
     Inr (Some ''v'',
          \<lparr>cache = [(''k'', \<lparr>data = ''v'', expires_at = 1700000000, created_at = 1700000000,
                              data_type = PLAYER_DATA\<rparr>)],
           ttl_config = DEFAULT_TTL_CONFIG,
           stats = \<lparr>hits = 1, misses = 0, evictions = 0, invalidations = 0\<rparr>\<rparr>) \<and>
   cleanup_expired
       \<lparr>cache = [(''k'', \<lparr>data = ''v'', expires_at = 1700000000, created_at = 1700000000,
                           data_type = PLAYER_DATA\<rparr>)],
        ttl_config = DEFAULT_TTL_CONFIG,
        stats = \<lparr>hits = 0, misses = 0, evictions = 0, invalidations = 0\<rparr>\<rparr>
       1700000000 =
     Inr (1, \<lparr>cache = [], ttl_config = DEFAULT_TTL_CONFIG,
              stats = \<lparr>hits = 0, misses = 0, evictions = 1, invalidations = 0\<rparr>\<rparr>)"
  by (simp add: set_item_def float_add_int_def init_def below_limit get_def is_expired_def
        cleanup_expired_result)

section \<open>The expiry sweep\<close>

text \<open>
  C3. In every state a manager can be in, \<open>cleanup_expired\<close> at clock value \<open>now\<close> returns
  normally; the store afterwards consists of exactly the entries whose \<open>expires_at\<close> is not
  at or before \<open>now\<close>, each unchanged and in its old position; the number returned is the
  number of entries whose \<open>expires_at\<close> is at or before \<open>now\<close>, and the evictions counter
  has grown by that number while the other counters are unchanged.
\<close>

theorem cleanup_expired_removes_exactly_expired:
  assumes "reachable ttl_cfg m"
  shows "\<exists>n m'. cleanup_expired m now = Inr (n, m') \<and>
           cache m' = filter (\<lambda>(key, entry). \<not> expires_at entry \<le> now) (cache m) \<and>
           n = int (length (filter (\<lambda>(key, entry). expires_at entry \<le> now) (cache m))) \<and>
           stats m' = (stats m)\<lparr>evictions := evictions (stats m) + n\<rparr> \<and>
           ttl_config m' = ttl_config m"
proof -
  have q: "(\<lambda>(key, entry). expires_at entry \<le> now) =
           (\<lambda>p::string \<times> 'a CacheEntry. expires_at (snd p) \<le> now)"
    and nq: "(\<lambda>(key, entry). \<not> expires_at entry \<le> now) =
           (\<lambda>p::string \<times> 'a CacheEntry. \<not> expires_at (snd p) \<le> now)"
    by (simp_all add: fun_eq_iff)
  show ?thesis
    unfolding q nq cleanup_expired_result [OF reachable_distinct [OF assms]] by simp
qed

theorem cleanup_expired_removes_exactly_expired_witness:
  "cleanup_expired
     \<lparr>cache = [(''a'', \<lparr>data = ''x'', expires_at = 1700000010, created_at = 1700000000,
                          data_type = MATCHUP_DATA\<rparr>),
               (''b'', \<lparr>data = ''y'', expires_at = 1700003600, created_at = 1700000000,
                          data_type = PLAYER_DATA\<rparr>)],
      ttl_config = DEFAULT_TTL_CONFIG,
      stats = \<lparr>hits = 0, misses = 0, evictions = 0, invalidations = 0\<rparr>\<rparr>
     1700000010 =
   Inr (1, \<lparr>cache = [(''b'', \<lparr>data = ''y'', expires_at = 1700003600, created_at = 1700000000,
                                  data_type = PLAYER_DATA\<rparr>)],
            ttl_config = DEFAULT_TTL_CONFIG,
            stats = \<lparr>hits = 0, misses = 0, evictions = 1, invalidations = 0\<rparr>\<rparr>)"
  (is "cleanup_expired ?M _ = _")
proof -
  let ?fp = "\<lparr>add_int = \<lambda>x n. x + real_of_int n, sub = \<lambda>x y. x - y,
             truediv = \<lambda>a b. real_of_int a / real_of_int b, mul_int = \<lambda>x n. x * real_of_int n,
             round_nd = \<lambda>x n. real_of_int (round (x * 10 ^ nat n)) / 10 ^ nat n\<rparr>"
  let ?I = "init None :: string CacheManager"
  let ?A = "\<lparr>cache = [(''a'', \<lparr>data = ''x'', expires_at = 1700000010,
                          created_at = 1700000000, data_type = MATCHUP_DATA\<rparr>)],
              ttl_config = DEFAULT_TTL_CONFIG,
              stats = \<lparr>hits = 0, misses = 0, evictions = 0, invalidations = 0\<rparr>\<rparr>"
  have s1: "set_item ?fp ?I ''a'' ''x'' MATCHUP_DATA (Some 10) 1700000000 = Inr ?A"
    by (simp add: set_item_def float_add_int_def init_def below_limit)
  have s2: "set_item ?fp ?A ''b'' ''y'' PLAYER_DATA None 1700000000 = Inr ?M"
    by (simp add: set_item_def dict_getitem_def float_add_int_def default_ttl_values below_limit)
  have r0: "reachable None ?I" by (rule reachable.r_init)
  have r1: "reachable None ?A" by (rule reachable.r_set [OF r0 s1])
  have r: "reachable None ?M" by (rule reachable.r_set [OF r1 s2])
  from cleanup_expired_removes_exactly_expired [OF r, of 1700000010]
  show ?thesis by auto
qed

section \<open>Invalidation by substring\<close>

text \<open>
  C8. In every state a manager can be in and for every string \<open>s\<close>,
  \<open>invalidate_by_pattern\<close> returns normally; the store afterwards consists of exactly the
  entries whose key does not contain \<open>s\<close> as a contiguous substring, each unchanged; the
  number returned is the number of keys that contain \<open>s\<close>, and the invalidations counter
  has grown by that number while the other counters are unchanged.
\<close>

theorem invalidate_by_pattern_removes_matching_keys:
  assumes "reachable ttl_cfg m"
  shows "\<exists>n m'. invalidate_by_pattern m s = Inr (n, m') \<and>
           cache m' = filter (\<lambda>(key, entry). \<not> sublist s key) (cache m) \<and>
           n = int (length (filter (\<lambda>(key, entry). sublist s key) (cache m))) \<and>
           stats m' = (stats m)\<lparr>invalidations := invalidations (stats m) + n\<rparr> \<and>
           ttl_config m' = ttl_config m"
proof -
  have q: "(\<lambda>(key, entry). sublist s key) =
           (\<lambda>p::string \<times> 'a CacheEntry. sublist s (fst p))"
    and nq: "(\<lambda>(key, entry). \<not> sublist s key) =
           (\<lambda>p::string \<times> 'a CacheEntry. \<not> sublist s (fst p))"
    by (simp_all add: fun_eq_iff)
  show ?thesis
    unfolding q nq invalidate_by_pattern_result [OF reachable_distinct [OF assms]] by simp
qed

theorem invalidate_by_pattern_removes_matching_keys_witness:
  "invalidate_by_pattern
     \<lparr>cache = [(''xabcx'', \<lparr>data = ''x'', expires_at = 1700000010, created_at = 1700000000,
                          data_type = MATCHUP_DATA\<rparr>),
               (''acb'', \<lparr>data = ''y'', expires_at = 1700003600, created_at = 1700000000,
                          data_type = PLAYER_DATA\<rparr>)],
      ttl_config = DEFAULT_TTL_CONFIG,
      stats = \<lparr>hits = 0, misses = 0, evictions = 0, invalidations = 0\<rparr>\<rparr>
     ''abc'' =
   Inr (1, \<lparr>cache = [(''acb'', \<lparr>data = ''y'', expires_at = 1700003600,
                                  created_at = 1700000000, data_type = PLAYER_DATA\<rparr>)],
            ttl_config = DEFAULT_TTL_CONFIG,
            stats = \<lparr>hits = 0, misses = 0, evictions = 0, invalidations = 1\<rparr>\<rparr>)"
  (is "invalidate_by_pattern ?M _ = _")
proof -
  let ?fp = "\<lparr>add_int = \<lambda>x n. x + real_of_int n, sub = \<lambda>x y. x - y,
             truediv = \<lambda>a b. real_of_int a / real_of_int b, mul_int = \<lambda>x n. x * real_of_int n,
             round_nd = \<lambda>x n. real_of_int (round (x * 10 ^ nat n)) / 10 ^ nat n\<rparr>"
  let ?I = "init None :: string CacheManager"
  let ?A = "\<lparr>cache = [(''xabcx'', \<lparr>data = ''x'', expires_at = 1700000010,
                          created_at = 1700000000, data_type = MATCHUP_DATA\<rparr>)],
              ttl_config = DEFAULT_TTL_CONFIG,
              stats = \<lparr>hits = 0, misses = 0, evictions = 0, invalidations = 0\<rparr>\<rparr>"
  have s1: "set_item ?fp ?I ''xabcx'' ''x'' MATCHUP_DATA (Some 10) 1700000000 = Inr ?A"
    by (simp add: set_item_def float_add_int_def init_def below_limit)
  have s2: "set_item ?fp ?A ''acb'' ''y'' PLAYER_DATA None 1700000000 = Inr ?M"
    by (simp add: set_item_def dict_getitem_def float_add_int_def default_ttl_values below_limit)
  have r0: "reachable None ?I" by (rule reachable.r_init)
  have r1: "reachable None ?A" by (rule reachable.r_set [OF r0 s1])
  have r: "reachable None ?M" by (rule reachable.r_set [OF r1 s2])
  from invalidate_by_pattern_removes_matching_keys [OF r, of "''abc''"]
  show ?thesis by (auto simp: sublist_Cons_right)
qed

section \<open>Invalidation of one key\<close>

text \<open>
  C9. \<open>invalidate\<close> of a key that is in the store returns true; afterwards the key is absent,
  every other key maps to what it mapped to before, invalidations is one higher and the
  other counters are unchanged, and a \<open>get\<close> of the key is a plain miss. \<open>invalidate\<close> of a
  key that is not in the store returns false and leaves the whole state, store and counters,
  as it was.
\<close>

theorem invalidate_present_or_absent:
  "(\<forall>e. map_of (cache m) key = Some e \<longrightarrow>
      (\<exists>m'. invalidate m key = Inr (True, m') \<and>
            map_of (cache m') key = None \<and>
            (\<forall>k. k \<noteq> key \<longrightarrow> map_of (cache m') k = map_of (cache m) k) \<and>
            stats m' = (stats m)\<lparr>invalidations := invalidations (stats m) + 1\<rparr> \<and>
            ttl_config m' = ttl_config m \<and>
            (\<forall>c t. get m' key c t =
               Inr (None, m'\<lparr>stats := (stats m')\<lparr>misses := misses (stats m') + 1\<rparr>\<rparr>)))) \<and>
   (map_of (cache m) key = None \<longrightarrow> invalidate m key = Inr (False, m))"
  by (auto simp: invalidate_present invalidate_absent AList.delete_conv' get_absent)

theorem invalidate_present_or_absent_witness:
  "invalidate
     \<lparr>cache = [(''a'', \<lparr>data = ''x'', expires_at = 1700000010, created_at = 1700000000,
                          data_type = MATCHUP_DATA\<rparr>)],
      ttl_config = DEFAULT_TTL_CONFIG,
      stats = \<lparr>hits = 0, misses = 0, evictions = 0, invalidations = 0\<rparr>\<rparr> ''a'' =
     Inr (True, \<lparr>cache = [], ttl_config = DEFAULT_TTL_CONFIG,
                 stats = \<lparr>hits = 0, misses = 0, evictions = 0, invalidations = 1\<rparr>\<rparr>) \<and>
   get \<lparr>cache = [], ttl_config = DEFAULT_TTL_CONFIG,
        stats = \<lparr>hits = 0, misses = 0, evictions = 0, invalidations = 1\<rparr>\<rparr>
       ''a'' MATCHUP_DATA 1700000001 =
     Inr (None :: string option,
          \<lparr>cache = [], ttl_config = DEFAULT_TTL_CONFIG,
           stats = \<lparr>hits = 0, misses = 1, evictions = 0, invalidations = 1\<rparr>\<rparr>) \<and>
   invalidate
     \<lparr>cache = [(''a'', \<lparr>data = ''x'', expires_at = 1700000010, created_at = 1700000000,
                          data_type = MATCHUP_DATA\<rparr>)],
      ttl_config = DEFAULT_TTL_CONFIG,
      stats = \<lparr>hits = 0, misses = 0, evictions = 0, invalidations = 0\<rparr>\<rparr> ''b'' =
     Inr (False,
          \<lparr>cache = [(''a'', \<lparr>data = ''x'', expires_at = 1700000010, created_at = 1700000000,
                               data_type = MATCHUP_DATA\<rparr>)],
           ttl_config = DEFAULT_TTL_CONFIG,
           stats = \<lparr>hits = 0, misses = 0, evictions = 0, invalidations = 0\<rparr>\<rparr>)"
  (is "invalidate ?M _ = Inr (True, ?N) \<and> _ \<and> _")
proof -
  have p: "map_of (cache ?M) ''a'' =
             Some \<lparr>data = ''x'', expires_at = 1700000010, created_at = 1700000000,
                   data_type = MATCHUP_DATA\<rparr>"
    by simp
  have a: "map_of (cache ?M) ''b'' = None" by simp
  from invalidate_present_or_absent [of ?M "''a''"] p
  obtain m' where i: "invalidate ?M ''a'' = Inr (True, m')"
    and g: "\<forall>c t. get m' ''a'' c t =
               Inr (None, m'\<lparr>stats := (stats m')\<lparr>misses := misses (stats m') + 1\<rparr>\<rparr>)"
    by blast
  have m': "m' = ?N"
    using i by (simp add: invalidate_def dict_delitem_def)
  from invalidate_present_or_absent [of ?M "''b''"] a
  have "invalidate ?M ''b'' = Inr (False, ?M)" by blast
  with i g show ?thesis unfolding m' by simp
qed

section \<open>What \<open>set\<close> leaves alone\<close>

text \<open>
  C10. A \<open>set\<close> that returns changes no counter and no TTL; every key other than the one
  set maps to the entry it mapped to before, and the entries under other keys are the same
  list as before; when the key was present already, the number of entries is unchanged.
\<close>

theorem set_item_frame:
  assumes "set_item fp m key d dt ov now = Inr m'"
  shows "stats m' = stats m \<and> ttl_config m' = ttl_config m \<and>
         (\<forall>k. k \<noteq> key \<longrightarrow> map_of (cache m') k = map_of (cache m) k) \<and>
         filter (\<lambda>(k, entry). k \<noteq> key) (cache m') = filter (\<lambda>(k, entry). k \<noteq> key) (cache m) \<and>
         (map_of (cache m) key \<noteq> None \<longrightarrow> length (cache m') = length (cache m))"
proof -
  have q: "(\<lambda>(k, entry). k \<noteq> key) = (\<lambda>p::string \<times> 'a CacheEntry. fst p \<noteq> key)"
    by (simp add: fun_eq_iff)
  from set_item_Inr [OF assms] show ?thesis
    unfolding q
    by (auto simp: AList.update_conv' filter_update_other length_update_present)
qed

theorem set_item_frame_witness:
  "set_item
     \<lparr>add_int = \<lambda>x n. x + real_of_int n, sub = \<lambda>x y. x - y,
       truediv = \<lambda>a b. real_of_int a / real_of_int b, mul_int = \<lambda>x n. x * real_of_int n,
       round_nd = \<lambda>x n. real_of_int (round (x * 10 ^ nat n)) / 10 ^ nat n\<rparr>
     \<lparr>cache = [(''p1'', \<lparr>data = ''A'', expires_at = 1700003600, created_at = 1700000000,
                           data_type = PLAYER_DATA\<rparr>),
               (''q'', \<lparr>data = ''Z'', expires_at = 1700000900, created_at = 1700000000,
                          data_type = ROSTER_DATA\<rparr>)],
      ttl_config = DEFAULT_TTL_CONFIG,
      stats = \<lparr>hits = 1, misses = 0, evictions = 0, invalidations = 0\<rparr>\<rparr>
     ''p1'' ''B'' PLAYER_DATA None 1700000100 =
   Inr \<lparr>cache = [(''p1'', \<lparr>data = ''B'', expires_at = 1700003700, created_at = 1700000100,
                             data_type = PLAYER_DATA\<rparr>),
                 (''q'', \<lparr>data = ''Z'', expires_at = 1700000900, created_at = 1700000000,
                            data_type = ROSTER_DATA\<rparr>)],
        ttl_config = DEFAULT_TTL_CONFIG,
        stats = \<lparr>hits = 1, misses = 0, evictions = 0, invalidations = 0\<rparr>\<rparr> \<and>
   map_of [(''p1'', \<lparr>data = ''B'', expires_at = 1700003700, created_at = 1700000100,
                       data_type = PLAYER_DATA\<rparr>),
           (''q'', \<lparr>data = ''Z'', expires_at = 1700000900, created_at = 1700000000,
                      data_type = ROSTER_DATA\<rparr>)] ''q'' =
     Some \<lparr>data = ''Z'', expires_at = 1700000900, created_at = 1700000000,
           data_type = ROSTER_DATA\<rparr>"
  (is "set_item ?fp ?M _ _ _ _ _ = Inr ?N \<and> _")
proof -
  have s: "set_item ?fp ?M ''p1'' ''B'' PLAYER_DATA None 1700000100 = Inr ?N"
    by (simp add: set_item_def dict_getitem_def float_add_int_def default_ttl_values below_limit)
  have ne: "''q'' \<noteq> ''p1''" by simp
  have pr: "map_of (cache ?M) ''p1'' \<noteq> None" by simp
  from set_item_frame [OF s] ne pr
  have "map_of (cache ?N) ''q'' = map_of (cache ?M) ''q'' \<and> length (cache ?N) = length (cache ?M)"
    by blast
  with s show ?thesis by simp
qed

section \<open>The hit rate\<close>

text \<open>
  C4. In every state a manager can be in, \<open>get_stats\<close> returns a report in which
  \<open>total_requests\<close> is hits plus misses; \<open>hit_rate_percent\<close> is 0 when \<open>total_requests\<close>
  is 0, and otherwise it is the quotient of hits by hits plus misses, multiplied by 100 and
  rounded to 2 digits, each step being the interpreter's double operation.
\<close>

theorem get_stats_hit_rate:
  assumes "reachable ttl_cfg m"
  shows "\<exists>r. get_stats fp m = Inr r \<and>
           r_hits r = hits (stats m) \<and> r_misses r = misses (stats m) \<and>
           total_requests r = r_hits r + r_misses r \<and>
           (total_requests r = 0 \<longrightarrow> hit_rate_percent r = 0) \<and>
           (total_requests r \<noteq> 0 \<longrightarrow>
              hit_rate_percent r =
                round_nd fp (mul_int fp (truediv fp (r_hits r) (r_hits r + r_misses r)) 100) 2)"
  by (simp add: get_stats_result [OF reachable_wf [OF assms]])

theorem get_stats_hit_rate_witness:
  "map_sum id hit_rate_percent
     (get_stats \<lparr>add_int = \<lambda>x n. x + real_of_int n, sub = \<lambda>x y. x - y,
                truediv = \<lambda>a b. real_of_int a / real_of_int b, mul_int = \<lambda>x n. x * real_of_int n,
                round_nd = \<lambda>x n. real_of_int (round (x * 10 ^ nat n)) / 10 ^ nat n\<rparr>
        (init None :: string CacheManager)) = Inr 0 \<and>
   map_sum id hit_rate_percent
     (get_stats \<lparr>add_int = \<lambda>x n. x + real_of_int n, sub = \<lambda>x y. x - y,
                truediv = \<lambda>a b. real_of_int a / real_of_int b, mul_int = \<lambda>x n. x * real_of_int n,
                round_nd = \<lambda>x n. real_of_int (round (x * 10 ^ nat n)) / 10 ^ nat n\<rparr>
        \<lparr>cache = [(''k'', \<lparr>data = ''v'', expires_at = 1700003601, created_at = 1700000001,
                             data_type = PLAYER_DATA\<rparr>)],
         ttl_config = DEFAULT_TTL_CONFIG,
         stats = \<lparr>hits = 1, misses = 1, evictions = 0, invalidations = 0\<rparr>\<rparr>) = Inr 50"
  (is "map_sum id hit_rate_percent (get_stats ?fp ?I) = _ \<and>
       map_sum id hit_rate_percent (get_stats ?fp ?C) = _")
proof -
  let ?A = "\<lparr>cache = [], ttl_config = DEFAULT_TTL_CONFIG,
             stats = \<lparr>hits = 0, misses = 1, evictions = 0, invalidations = 0\<rparr>\<rparr>
           :: string CacheManager"
  let ?B = "\<lparr>cache = [(''k'', \<lparr>data = ''v'', expires_at = 1700003601,
                         created_at = 1700000001, data_type = PLAYER_DATA\<rparr>)],
             ttl_config = DEFAULT_TTL_CONFIG,
             stats = \<lparr>hits = 0, misses = 1, evictions = 0, invalidations = 0\<rparr>\<rparr>"
  have r0: "reachable None ?I" by (rule reachable.r_init)
  have g1: "get ?I ''k'' PLAYER_DATA 1700000000 = Inr (None, ?A)"
    by (simp add: get_def init_def)
  have r1: "reachable None ?A" by (rule reachable.r_get [OF r0 g1])
  have s2: "set_item ?fp ?A ''k'' ''v'' PLAYER_DATA None 1700000001 = Inr ?B"
    by (simp add: set_item_def dict_getitem_def float_add_int_def default_ttl_values below_limit)
  have r2: "reachable None ?B" by (rule reachable.r_set [OF r1 s2])
  have g3: "get ?B ''k'' PLAYER_DATA 1700000002 = Inr (Some ''v'', ?C)"
    by (simp add: get_def is_expired_def)
  have r3: "reachable None ?C" by (rule reachable.r_get [OF r2 g3])
  from get_stats_hit_rate [OF r0, of ?fp]
  have a: "map_sum id hit_rate_percent (get_stats ?fp ?I) = Inr 0"
    by (auto simp: init_def)
  from get_stats_hit_rate [OF r3, of ?fp]
  have b: "map_sum id hit_rate_percent (get_stats ?fp ?C) = Inr 50"
    by auto
  from a b show ?thesis by simp
qed

section \<open>Default TTLs and overrides\<close>

text \<open>
  C6, as stated, fails in its last part: the constructor takes any integer as a category's
  TTL, and with a TTL no double can hold a \<open>set\<close> without a call-site override computes no
  expiration: the sum raises OverflowError.
\<close>

theorem set_item_huge_configured_ttl_raises:
  "set_item
     \<lparr>add_int = \<lambda>x n. x + real_of_int n, sub = \<lambda>x y. x - y,
       truediv = \<lambda>a b. real_of_int a / real_of_int b, mul_int = \<lambda>x n. x * real_of_int n,
       round_nd = \<lambda>x n. real_of_int (round (x * 10 ^ nat n)) / 10 ^ nat n\<rparr>
     (init (Some [PLAYER_DATA \<mapsto> 2 ^ 1024])) ''k'' ''v'' PLAYER_DATA None 1700000000 =
     (Inl OverflowError :: py_error + string CacheManager)"
  by (simp add: set_item_def dict_getitem_def init_def float_add_int_def DBL_INT_LIMIT_def)

text \<open>
  C6, amended. Without overrides the TTLs are 3600, 86400, 3600, 1800 and 900 seconds for
  PLAYER_DATA, LEAGUE_SETTINGS, MATCHUP_DATA, TRENDING_PLAYERS and ROSTER_DATA. With an
  override mapping a category's TTL is the override's value where the mapping has one and
  the default otherwise. Every category has a TTL \<open>T\<close> in the table the constructor built,
  and in every state reached from that constructor a \<open>set\<close> without a call-site override
  uses that \<open>T\<close>: when the magnitude of \<open>T\<close> is below \<open>2^1024 - 2^970\<close> it stores, under the
  key, the payload with the clock value as creation time and the interpreter's double sum of
  the clock value and \<open>T\<close> as expiration; otherwise it raises OverflowError.
\<close>

theorem ttl_defaults_and_overrides:
  "ttl_config (init None :: 'a CacheManager) PLAYER_DATA = Some 3600 \<and>
   ttl_config (init None :: 'a CacheManager) LEAGUE_SETTINGS = Some 86400 \<and>
   ttl_config (init None :: 'a CacheManager) MATCHUP_DATA = Some 3600 \<and>
   ttl_config (init None :: 'a CacheManager) TRENDING_PLAYERS = Some 1800 \<and>
   ttl_config (init None :: 'a CacheManager) ROSTER_DATA = Some 900 \<and>
   ttl_config (init (Some ov) :: 'a CacheManager) dt =
     (case ov dt of Some v \<Rightarrow> Some v | None \<Rightarrow> ttl_config (init None :: 'a CacheManager) dt) \<and>
   (\<exists>T. ttl_config (init ttl_cfg :: 'a CacheManager) dt = Some T \<and>
      (\<forall>m :: 'a CacheManager. reachable ttl_cfg m \<longrightarrow>
         (\<bar>T\<bar> < DBL_INT_LIMIT \<longrightarrow>
            set_item fp m key d dt None now =
              Inr (m\<lparr>cache := AList.update key
                      \<lparr>data = d, expires_at = add_int fp now T, created_at = now, data_type = dt\<rparr>
                      (cache m)\<rparr>)) \<and>
         (\<not> \<bar>T\<bar> < DBL_INT_LIMIT \<longrightarrow> set_item fp m key d dt None now = Inl OverflowError)))"
proof -
  have cfg: "\<exists>T. ttl_config (init ttl_cfg :: 'a CacheManager) dt = Some T"
    using wf_manager_ttl [OF wf_init] by blast
  then obtain T where T: "ttl_config (init ttl_cfg :: 'a CacheManager) dt = Some T" ..
  have "(\<bar>T\<bar> < DBL_INT_LIMIT \<longrightarrow>
            set_item fp m key d dt None now =
              Inr (m\<lparr>cache := AList.update key
                      \<lparr>data = d, expires_at = add_int fp now T, created_at = now, data_type = dt\<rparr>
                      (cache m)\<rparr>)) \<and>
         (\<not> \<bar>T\<bar> < DBL_INT_LIMIT \<longrightarrow> set_item fp m key d dt None now = Inl OverflowError)"
    if "reachable ttl_cfg m" for m :: "'a CacheManager"
    using reachable_ttl_config [OF that] T
    by (simp add: set_item_def dict_getitem_def float_add_int_def)
  with T have last: "\<exists>T. ttl_config (init ttl_cfg :: 'a CacheManager) dt = Some T \<and>
      (\<forall>m :: 'a CacheManager. reachable ttl_cfg m \<longrightarrow>
         (\<bar>T\<bar> < DBL_INT_LIMIT \<longrightarrow>
            set_item fp m key d dt None now =
              Inr (m\<lparr>cache := AList.update key
                      \<lparr>data = d, expires_at = add_int fp now T, created_at = now, data_type = dt\<rparr>
                      (cache m)\<rparr>)) \<and>
         (\<not> \<bar>T\<bar> < DBL_INT_LIMIT \<longrightarrow> set_item fp m key d dt None now = Inl OverflowError))"
    by blast
  have ov: "ttl_config (init (Some ov) :: 'a CacheManager) dt =
     (case ov dt of Some v \<Rightarrow> Some v | None \<Rightarrow> ttl_config (init None :: 'a CacheManager) dt)"
    by (cases "ov dt") (simp_all add: init_ttl_config)
  have d: "ttl_config (init None :: 'a CacheManager) = DEFAULT_TTL_CONFIG"
    by (simp add: init_def)
  from last ov show ?thesis
    unfolding d by (simp only: default_ttl_values simp_thms)
qed

theorem ttl_defaults_and_overrides_witness:
  "ttl_config (init (Some [MATCHUP_DATA \<mapsto> 300]) :: string CacheManager) MATCHUP_DATA = Some 300 \<and>
   ttl_config (init (Some [MATCHUP_DATA \<mapsto> 300]) :: string CacheManager) ROSTER_DATA = Some 900 \<and>
   set_item
     \<lparr>add_int = \<lambda>x n. x + real_of_int n, sub = \<lambda>x y. x - y,
       truediv = \<lambda>a b. real_of_int a / real_of_int b, mul_int = \<lambda>x n. x * real_of_int n,
       round_nd = \<lambda>x n. real_of_int (round (x * 10 ^ nat n)) / 10 ^ nat n\<rparr>
     (init (Some [MATCHUP_DATA \<mapsto> 300])) ''m:1'' ''X'' MATCHUP_DATA None 1700000000 =
     Inr \<lparr>cache = [(''m:1'', \<lparr>data = ''X'', expires_at = 1700000300, created_at = 1700000000,
                              data_type = MATCHUP_DATA\<rparr>)],
          ttl_config = DEFAULT_TTL_CONFIG ++ [MATCHUP_DATA \<mapsto> 300],
          stats = \<lparr>hits = 0, misses = 0, evictions = 0, invalidations = 0\<rparr>\<rparr> \<and>
   set_item
     \<lparr>add_int = \<lambda>x n. x + real_of_int n, sub = \<lambda>x y. x - y,
       truediv = \<lambda>a b. real_of_int a / real_of_int b, mul_int = \<lambda>x n. x * real_of_int n,
       round_nd = \<lambda>x n. real_of_int (round (x * 10 ^ nat n)) / 10 ^ nat n\<rparr>
     (init (Some [MATCHUP_DATA \<mapsto> 2 ^ 1024])) ''m:1'' ''X'' MATCHUP_DATA None 1700000000 =
     (Inl OverflowError :: py_error + string CacheManager)"
  (is "_ \<and> _ \<and> set_item ?fp _ _ _ _ _ _ = _ \<and> _")
proof -
  let ?ov = "[MATCHUP_DATA \<mapsto> (300::int)]"
  let ?I = "init (Some ?ov) :: string CacheManager"
  note inst = ttl_defaults_and_overrides
                [where ?'a = string and ov = ?ov and ttl_cfg = "Some ?ov" and key = "''m:1''"
                   and d = "''X''" and now = 1700000000 and fp = ?fp]
  have c1: "ttl_config ?I MATCHUP_DATA = Some 300"
    using inst [of MATCHUP_DATA] by simp
  have c2: "ttl_config ?I ROSTER_DATA = Some 900"
    using inst [of ROSTER_DATA] by simp
  have r: "reachable (Some ?ov) ?I" by (rule reachable.r_init)
  have rng: "\<bar>300::int\<bar> < DBL_INT_LIMIT" by (simp add: below_limit)
  from inst [of MATCHUP_DATA] c1 r rng
  have "set_item ?fp ?I ''m:1'' ''X'' MATCHUP_DATA None 1700000000 =
          Inr (?I\<lparr>cache := AList.update ''m:1''
                 \<lparr>data = ''X'', expires_at = add_int ?fp 1700000000 300,
                    created_at = 1700000000, data_type = MATCHUP_DATA\<rparr> (cache ?I)\<rparr>)"
    by auto
  then have "set_item ?fp ?I ''m:1'' ''X'' MATCHUP_DATA None 1700000000 =
     Inr \<lparr>cache = [(''m:1'', \<lparr>data = ''X'', expires_at = 1700000300, created_at = 1700000000,
                              data_type = MATCHUP_DATA\<rparr>)],
          ttl_config = DEFAULT_TTL_CONFIG ++ [MATCHUP_DATA \<mapsto> 300],
          stats = \<lparr>hits = 0, misses = 0, evictions = 0, invalidations = 0\<rparr>\<rparr>"
    by (simp add: init_def)
  moreover
  let ?big = "[MATCHUP_DATA \<mapsto> (2::int) ^ 1024]"
  let ?J = "init (Some ?big) :: string CacheManager"
  have cb: "ttl_config ?J MATCHUP_DATA = Some (2 ^ 1024)" by (simp add: init_def)
  have rb: "reachable (Some ?big) ?J" by (rule reachable.r_init)
  have big: "\<not> \<bar>(2::int) ^ 1024\<bar> < DBL_INT_LIMIT" by (simp add: DBL_INT_LIMIT_def)
  from ttl_defaults_and_overrides
         [where ?'a = string and ttl_cfg = "Some ?big" and dt = MATCHUP_DATA and key = "''m:1''"
            and d = "''X''" and now = 1700000000 and fp = ?fp]
  obtain T where T: "ttl_config ?J MATCHUP_DATA = Some T"
    and over: "\<forall>m :: string CacheManager. reachable (Some ?big) m \<longrightarrow>
         (\<not> \<bar>T\<bar> < DBL_INT_LIMIT \<longrightarrow>
            set_item ?fp m ''m:1'' ''X'' MATCHUP_DATA None 1700000000 = Inl OverflowError)"
    by blast
  from T cb have "T = 2 ^ 1024" by (simp only: option.inject)
  with over rb big
  have "set_item ?fp ?J ''m:1'' ''X'' MATCHUP_DATA None 1700000000 = Inl OverflowError"
    by blast
  ultimately show ?thesis using c1 c2 by simp
qed

section \<open>Which calls return\<close>

text \<open>
  C5, as stated, fails: \<open>set\<close> adds the TTL to a double, and an integer TTL that no double
  can hold makes that addition raise OverflowError. With \<^verbatim>\<open>ttl_override = 2**1024\<close> the
  call raises and stores nothing.
\<close>

theorem set_item_huge_ttl_raises:
  "set_item
     \<lparr>add_int = \<lambda>x n. x + real_of_int n, sub = \<lambda>x y. x - y,
       truediv = \<lambda>a b. real_of_int a / real_of_int b, mul_int = \<lambda>x n. x * real_of_int n,
       round_nd = \<lambda>x n. real_of_int (round (x * 10 ^ nat n)) / 10 ^ nat n\<rparr>
     (init None) ''k'' ''v'' PLAYER_DATA (Some (2 ^ 1024)) 1700000000 =
     (Inl OverflowError :: py_error + string CacheManager)"
  by (simp add: set_item_def float_add_int_def DBL_INT_LIMIT_def)

text \<open>
  C5, amended. In every state a manager can be in, for every key, category and clock value:
  \<open>get\<close>, \<open>invalidate\<close>, \<open>invalidate_by_pattern\<close>, \<open>invalidate_by_type\<close>,
  \<open>cleanup_expired\<close>, \<open>get_stats\<close>, \<open>get_cache_info\<close> and \<open>log_performance_summary\<close>
  return a value and do not raise (\<open>clear\<close> and \<open>get_matchup_ttl\<close> have no operation that
  could); \<open>set\<close> returns for every TTL override of magnitude below \<open>2^1024 - 2^970\<close>, zero
  and negative values included, and, without an override, the category always has a
  configured TTL and \<open>set\<close> returns when that TTL is of such magnitude. A key that is not in
  the store makes \<open>get\<close> return absent and \<open>invalidate\<close> return false with the state
  unchanged.
\<close>

theorem cache_methods_total:
  assumes "reachable ttl_cfg m"
  shows "(\<exists>r m'. get m key dt now = Inr (r, m')) \<and>
         (map_of (cache m) key = None \<longrightarrow> (\<exists>m'. get m key dt now = Inr (None, m'))) \<and>
         (\<forall>ttl. \<bar>ttl\<bar> < DBL_INT_LIMIT \<longrightarrow> (\<exists>m'. set_item fp m key d dt (Some ttl) now = Inr m')) \<and>
         (\<exists>T. ttl_config m dt = Some T \<and>
              (\<bar>T\<bar> < DBL_INT_LIMIT \<longrightarrow> (\<exists>m'. set_item fp m key d dt None now = Inr m'))) \<and>
         (\<exists>b m'. invalidate m key = Inr (b, m')) \<and>
         (map_of (cache m) key = None \<longrightarrow> invalidate m key = Inr (False, m)) \<and>
         (\<exists>n m'. invalidate_by_pattern m pat = Inr (n, m')) \<and>
         (\<exists>n m'. invalidate_by_type m dt = Inr (n, m')) \<and>
         (\<exists>n m'. cleanup_expired m now = Inr (n, m')) \<and>
         (\<exists>r. get_stats fp m = Inr r) \<and>
         (\<exists>r. get_cache_info fp m now clock = Inr r) \<and>
         (\<exists>u. log_performance_summary fp m now clock = Inr u)"
proof -
  from assms have wf: "wf_manager m" by (rule reachable_wf)
  from assms have dk: "distinct (map fst (cache m))" by (rule reachable_distinct)
  from wf_manager_ttl [OF wf] obtain T where T: "ttl_config m dt = Some T" ..
  have g: "\<exists>r m'. get m key dt now = Inr (r, m')" by (rule get_total)
  have ga: "map_of (cache m) key = None \<longrightarrow> (\<exists>m'. get m key dt now = Inr (None, m'))"
    by (simp add: get_absent)
  have s1: "\<forall>ttl. \<bar>ttl\<bar> < DBL_INT_LIMIT \<longrightarrow>
              (\<exists>m'. set_item fp m key d dt (Some ttl) now = Inr m')"
    by (simp add: set_item_def float_add_int_def)
  have s2: "\<exists>T. ttl_config m dt = Some T \<and>
              (\<bar>T\<bar> < DBL_INT_LIMIT \<longrightarrow> (\<exists>m'. set_item fp m key d dt None now = Inr m'))"
    using T by (simp add: set_item_def dict_getitem_def float_add_int_def)
  have i: "\<exists>b m'. invalidate m key = Inr (b, m')"
    by (cases "map_of (cache m) key") (auto simp: invalidate_absent invalidate_present)
  have ia: "map_of (cache m) key = None \<longrightarrow> invalidate m key = Inr (False, m)"
    by (simp add: invalidate_absent)
  have p: "\<exists>n m'. invalidate_by_pattern m pat = Inr (n, m')"
    by (simp add: invalidate_by_pattern_result [OF dk])
  have t: "\<exists>n m'. invalidate_by_type m dt = Inr (n, m')"
    by (simp add: invalidate_by_type_result [OF dk])
  have c: "\<exists>n m'. cleanup_expired m now = Inr (n, m')"
    by (simp add: cleanup_expired_result [OF dk])
  have st: "\<exists>r. get_stats fp m = Inr r" by (rule get_stats_total [OF wf])
  have ci: "\<exists>r. get_cache_info fp m now clock = Inr r" by (rule get_cache_info_total)
  from st ci have l: "\<exists>u. log_performance_summary fp m now clock = Inr u"
    by (auto simp: log_performance_summary_def)
  from g ga s1 s2 i ia p t c st ci l show ?thesis by blast
qed

theorem cache_methods_total_witness:
  "invalidate
     \<lparr>cache = [(''k'', \<lparr>data = ''v'', expires_at = 1700003600, created_at = 1700000000,
                          data_type = PLAYER_DATA\<rparr>)],
      ttl_config = DEFAULT_TTL_CONFIG,
      stats = \<lparr>hits = 0, misses = 0, evictions = 0, invalidations = 0\<rparr>\<rparr> ''zz'' =
     Inr (False,
          \<lparr>cache = [(''k'', \<lparr>data = ''v'', expires_at = 1700003600, created_at = 1700000000,
                               data_type = PLAYER_DATA\<rparr>)],
           ttl_config = DEFAULT_TTL_CONFIG,
           stats = \<lparr>hits = 0, misses = 0, evictions = 0, invalidations = 0\<rparr>\<rparr>) \<and>
   set_item
     \<lparr>add_int = \<lambda>x n. x + real_of_int n, sub = \<lambda>x y. x - y,
       truediv = \<lambda>a b. real_of_int a / real_of_int b, mul_int = \<lambda>x n. x * real_of_int n,
       round_nd = \<lambda>x n. real_of_int (round (x * 10 ^ nat n)) / 10 ^ nat n\<rparr>
     \<lparr>cache = [(''k'', \<lparr>data = ''v'', expires_at = 1700003600, created_at = 1700000000,
                          data_type = PLAYER_DATA\<rparr>)],
      ttl_config = DEFAULT_TTL_CONFIG,
      stats = \<lparr>hits = 0, misses = 0, evictions = 0, invalidations = 0\<rparr>\<rparr>
     ''zz'' ''w'' ROSTER_DATA (Some (- 5)) 1700000001 =
     Inr \<lparr>cache = [(''k'', \<lparr>data = ''v'', expires_at = 1700003600, created_at = 1700000000,
                              data_type = PLAYER_DATA\<rparr>),
                   (''zz'', \<lparr>data = ''w'', expires_at = 1699999996, created_at = 1700000001,
                              data_type = ROSTER_DATA\<rparr>)],
          ttl_config = DEFAULT_TTL_CONFIG,
          stats = \<lparr>hits = 0, misses = 0, evictions = 0, invalidations = 0\<rparr>\<rparr>"
  (is "invalidate ?A _ = _ \<and> set_item ?fp _ _ _ _ _ _ = Inr ?B")
proof -
  let ?I = "init None :: string CacheManager"
  have r0: "reachable None ?I" by (rule reachable.r_init)
  have s: "set_item ?fp ?I ''k'' ''v'' PLAYER_DATA None 1700000000 = Inr ?A"
    by (simp add: set_item_def dict_getitem_def float_add_int_def init_def default_ttl_values
          below_limit)
  have r: "reachable None ?A" by (rule reachable.r_set [OF r0 s])
  have absent: "map_of (cache ?A) ''zz'' = None" by simp
  have rng: "\<bar>- 5 :: int\<bar> < DBL_INT_LIMIT" by (simp add: below_limit)
  note tot = cache_methods_total [OF r, of "''zz''" ROSTER_DATA 1700000001 ?fp "''w''"]
  from tot absent have i: "invalidate ?A ''zz'' = Inr (False, ?A)" by blast
  from tot rng obtain m' where
    "set_item ?fp ?A ''zz'' ''w'' ROSTER_DATA (Some (- 5)) 1700000001 = Inr m'"
    by blast
  then have "set_item ?fp ?A ''zz'' ''w'' ROSTER_DATA (Some (- 5)) 1700000001 = Inr ?B"
    by (simp add: set_item_def float_add_int_def split: if_splits)
  with i show ?thesis by simp
qed

end
